theory Spec2Isabelle
  imports Complex_Main
begin

section \<open>Python values, exceptions and outcomes\<close>

text \<open>
  The objects that reach the setters of \<open>PlotBase\<close> and \<open>Scene3D\<close>. Objects of
  sympy's classes \<open>ReferenceFrame\<close>, \<open>Point\<close> and \<open>Vector\<close> define no \<open>__eq__\<close>,
  so \<open>==\<close> and \<open>!=\<close> on them compare identity: an object is its class together
  with an identity number. \<open>isinstance(x, C)\<close> is the test for the constructor.
\<close>

datatype pyobj =
    PyNone
  | ReferenceFrame nat
  | Point nat
  | Vector nat
  | Str string
  | Other nat

fun isinstance_ReferenceFrame :: "pyobj \<Rightarrow> bool" where
  "isinstance_ReferenceFrame (ReferenceFrame i) = True"
| "isinstance_ReferenceFrame x = False"

fun isinstance_Point :: "pyobj \<Rightarrow> bool" where
  "isinstance_Point (Point i) = True"
| "isinstance_Point x = False"

text \<open>The exceptions the modelled code raises.\<close>

datatype py_error = TypeError | NotImplementedError | IndexError

text \<open>
  A method that mutates its object either returns or raises; in both cases the
  object is left in some state, and what was assigned before a raise stays
  assigned. \<open>Returned s\<close> and \<open>Raised e s\<close> carry that state.
\<close>

datatype 's outcome = Returned 's | Raised py_error 's

text \<open>
  Nested sequences as \<open>get_expressions_to_evaluate\<close> builds them and the
  \<open>values\<close> setter takes them apart: a value is a list of values or an atom (an
  expression, a number), which cannot be subscripted.
\<close>

datatype 'a pyval = Atom 'a | Seq "'a pyval list"

text \<open>The shape of a nested sequence: the nesting with every atom forgotten.\<close>

definition shape :: "'a pyval \<Rightarrow> unit pyval" where
  "shape v = map_pyval (\<lambda>_. ()) v"

section \<open>PlotBase (plot\_base.py)\<close>

text \<open>
  The attributes of one \<open>PlotBase\<close> instance that the modelled methods read or
  write. \<open>_inertial_frame\<close> and \<open>_zero_point\<close> do not exist before their first
  assignment (the setters test \<open>hasattr\<close>): \<open>None\<close> is the missing attribute.
  \<open>expressions_self\<close> is what the abstract method
  \<open>_get_expressions_to_evaluate_self\<close> of the instance's subclass returns.
\<close>

record ('e, 'v) attrs =
  inertial_frame_attr :: "pyobj option"
  zero_point_attr :: "pyobj option"
  visible_attr :: bool
  values_attr :: "'v pyval"
  expressions_self :: "'e pyval"

text \<open>An instance is its own attributes and the list \<open>_children\<close>.\<close>

datatype ('e, 'v) plot_base =
  PlotBase (attrs: "('e, 'v) attrs") (children: "('e, 'v) plot_base list")

text \<open>The getters.\<close>

definition inertial_frame :: "('e, 'v) plot_base \<Rightarrow> pyobj option" where
  "inertial_frame n = inertial_frame_attr (attrs n)"


definition visible :: "('e, 'v) plot_base \<Rightarrow> bool" where
  "visible n = visible_attr (attrs n)"

text \<open>
  The \<open>inertial_frame\<close> setter: \<open>TypeError\<close> for anything that is not a
  \<open>ReferenceFrame\<close>, \<open>NotImplementedError\<close> once the attribute exists, otherwise
  the children first and then the instance itself.
  \<open>inertial_frame_setter_children\<close> is the loop
  \<open>for child in self._children: child.inertial_frame = new_inertial_frame\<close>:
  the first child whose setter raises ends it, and the children after that
  one are not touched.
\<close>

fun inertial_frame_setter ::
    "('e, 'v) plot_base \<Rightarrow> pyobj \<Rightarrow> ('e, 'v) plot_base outcome"
  and inertial_frame_setter_children ::
    "('e, 'v) plot_base list \<Rightarrow> pyobj \<Rightarrow> ('e, 'v) plot_base list outcome" where
  "inertial_frame_setter (PlotBase a cs) new_inertial_frame =
     (if \<not> isinstance_ReferenceFrame new_inertial_frame then
        Raised TypeError (PlotBase a cs)
      else if inertial_frame_attr a \<noteq> None then
        Raised NotImplementedError (PlotBase a cs)
      else
        (case inertial_frame_setter_children cs new_inertial_frame of
           Raised e cs' \<Rightarrow> Raised e (PlotBase a cs')
         | Returned cs' \<Rightarrow>
             Returned (PlotBase (a\<lparr>inertial_frame_attr := Some new_inertial_frame\<rparr>) cs')))"
| "inertial_frame_setter_children [] new_inertial_frame = Returned []"
| "inertial_frame_setter_children (child # cs) new_inertial_frame =
     (case inertial_frame_setter child new_inertial_frame of
        Raised e child' \<Rightarrow> Raised e (child' # cs)
      | Returned child' \<Rightarrow>
          (case inertial_frame_setter_children cs new_inertial_frame of
             Raised e cs' \<Rightarrow> Raised e (child' # cs')
           | Returned cs' \<Rightarrow> Returned (child' # cs')))"

text \<open>
  The \<open>zero_point\<close> setter: the test for a change comes first, the type test
  second, then the same loop over the children.
\<close>

fun zero_point_setter ::
    "('e, 'v) plot_base \<Rightarrow> pyobj \<Rightarrow> ('e, 'v) plot_base outcome"
  and zero_point_setter_children ::
    "('e, 'v) plot_base list \<Rightarrow> pyobj \<Rightarrow> ('e, 'v) plot_base list outcome" where
  "zero_point_setter (PlotBase a cs) new_zero_point =
     (if zero_point_attr a \<noteq> None \<and> Some new_zero_point \<noteq> zero_point_attr a then
        Raised NotImplementedError (PlotBase a cs)
      else if \<not> isinstance_Point new_zero_point then
        Raised TypeError (PlotBase a cs)
      else
        (case zero_point_setter_children cs new_zero_point of
           Raised e cs' \<Rightarrow> Raised e (PlotBase a cs')
         | Returned cs' \<Rightarrow>
             Returned (PlotBase (a\<lparr>zero_point_attr := Some new_zero_point\<rparr>) cs')))"
| "zero_point_setter_children [] new_zero_point = Returned []"
| "zero_point_setter_children (child # cs) new_zero_point =
     (case zero_point_setter child new_zero_point of
        Raised e child' \<Rightarrow> Raised e (child' # cs)
      | Returned child' \<Rightarrow>
          (case zero_point_setter_children cs new_zero_point of
             Raised e cs' \<Rightarrow> Raised e (child' # cs')
           | Returned cs' \<Rightarrow> Returned (child' # cs')))"


text \<open>
  The \<open>visible\<close> setter writes the attribute \<open>_visible\<close> of each child, not the
  child's property, and then its own. The argument is already a truth value
  (\<open>bool(is_visible)\<close> of a \<open>bool\<close> is itself).
\<close>

fun visible_setter :: "('e, 'v) plot_base \<Rightarrow> bool \<Rightarrow> ('e, 'v) plot_base" where
  "visible_setter (PlotBase a cs) is_visible =
     PlotBase (a\<lparr>visible_attr := is_visible\<rparr>)
       (map (\<lambda>child. PlotBase ((attrs child)\<lparr>visible_attr := is_visible\<rparr>) (children child)) cs)"

text \<open>
  The \<open>values\<close> getter and \<open>get_expressions_to_evaluate\<close>: the instance's own
  entry, then one entry for each child, in the order of \<open>_children\<close>.
\<close>

fun values_getter :: "('e, 'v) plot_base \<Rightarrow> 'v pyval" where
  "values_getter (PlotBase a cs) = Seq (values_attr a # map values_getter cs)"

fun get_expressions_to_evaluate :: "('e, 'v) plot_base \<Rightarrow> 'e pyval" where
  "get_expressions_to_evaluate (PlotBase a cs) =
     Seq (expressions_self a # map get_expressions_to_evaluate cs)"

text \<open>
  The \<open>values\<close> setter. \<open>values[0]\<close> raises \<open>TypeError\<close> on an atom and
  \<open>IndexError\<close> on the empty list. \<open>zip(self._children, values[1:])\<close> ends with
  the shorter of the two: \<open>values_setter_children\<close> is that loop.
\<close>

fun values_setter :: "('e, 'v) plot_base \<Rightarrow> 'v pyval \<Rightarrow> ('e, 'v) plot_base outcome"
  and values_setter_children ::
    "('e, 'v) plot_base list \<Rightarrow> 'v pyval list \<Rightarrow> ('e, 'v) plot_base list outcome" where
  "values_setter (PlotBase a cs) (Atom x) = Raised TypeError (PlotBase a cs)"
| "values_setter (PlotBase a cs) (Seq []) = Raised IndexError (PlotBase a cs)"
| "values_setter (PlotBase a cs) (Seq (v # vs)) =
     (case values_setter_children cs vs of
        Raised e cs' \<Rightarrow> Raised e (PlotBase (a\<lparr>values_attr := v\<rparr>) cs')
      | Returned cs' \<Rightarrow> Returned (PlotBase (a\<lparr>values_attr := v\<rparr>) cs'))"
| "values_setter_children [] vs = Returned []"
| "values_setter_children (c # cs) [] = Returned (c # cs)"
| "values_setter_children (c # cs) (v # vs) =
     (case values_setter c v of
        Raised e c' \<Rightarrow> Raised e (c' # cs)
      | Returned c' \<Rightarrow>
          (case values_setter_children cs vs of
             Raised e cs' \<Rightarrow> Raised e (c' # cs')
           | Returned cs' \<Rightarrow> Returned (c' # cs')))"

text \<open>
  A node as \<open>__init__(ReferenceFrame 0, Point 0)\<close> leaves it, for a subclass
  whose \<open>_get_expressions_to_evaluate_self\<close> returns \<open>exprs\<close>: both shared
  attributes assigned, visible, and \<open>_values = []\<close>.
\<close>

definition new_attrs :: "'e pyval \<Rightarrow> ('e, 'v) attrs" where
  "new_attrs exprs =
     \<lparr>inertial_frame_attr = Some (ReferenceFrame 0), zero_point_attr = Some (Point 0),
      visible_attr = True, values_attr = Seq [], expressions_self = exprs\<rparr>"

text \<open>
  A tree of three levels: a body whose children are a frame and a point, under
  a root. The point of the body is a grandchild of the root.
\<close>

definition example_point :: "(string, int) plot_base" where
  "example_point = PlotBase (new_attrs (Seq [Atom ''x'', Atom ''y'', Atom ''z''])) []"

definition example_body :: "(string, int) plot_base" where
  "example_body = PlotBase (new_attrs (Seq [])) [example_point]"

definition example_root :: "(string, int) plot_base" where
  "example_root = PlotBase (new_attrs (Seq [Atom ''r''])) [example_body]"

text \<open>A values tree of the shape of the expressions of \<open>example_root\<close>.\<close>

definition example_values :: "int pyval" where
  "example_values =
     Seq [Seq [Atom 7], Seq [Seq [], Seq [Seq [Atom 1, Atom 2, Atom 3]]]]"

section \<open>Scene3D (matplotlib/scene.py)\<close>

type_synonym vec3 = "real \<times> real \<times> real"

text \<open>
  The state of a scene that the modelled methods read or write: the list
  \<open>_children\<close> (the inertial frame's plot object first), the attribute
  \<open>_annot_location\<close> (missing before the first assignment) and the limits of
  the three axes of \<open>self.axes\<close>. The numbers of numpy (\<open>np.float64\<close>) are taken
  as real numbers.
\<close>

record 'n scene3d =
  scene_children :: "'n list"
  annot_location_attr :: "pyobj option"
  xlim :: "real \<times> real"
  ylim :: "real \<times> real"
  zlim :: "real \<times> real"

text \<open>The \<open>annot_location\<close> setter: one accepted value, an error for the rest.\<close>

definition annot_location_setter :: "'n scene3d \<Rightarrow> pyobj \<Rightarrow> 'n scene3d outcome" where
  "annot_location_setter s new_annot_location =
     (if new_annot_location = Str ''object'' then
        Returned (s\<lparr>annot_location_attr := Some new_annot_location\<rparr>)
      else Raised NotImplementedError s)"


text \<open>
  An artist as \<open>auto_zoom\<close> sees it: the results of its methods \<open>min()\<close> and
  \<open>max()\<close>, two points of the space.
\<close>

record artist =
  artist_min :: vec3
  artist_max :: vec3

text \<open>\<open>np.min(..., axis=0)\<close> and \<open>np.max(..., axis=0)\<close> of two rows.\<close>

fun vmin :: "vec3 \<Rightarrow> vec3 \<Rightarrow> vec3" where
  "vmin (x1, y1, z1) (x2, y2, z2) = (min x1 x2, min y1 y2, min z1 z2)"

fun vmax :: "vec3 \<Rightarrow> vec3 \<Rightarrow> vec3" where
  "vmax (x1, y1, z1) (x2, y2, z2) = (max x1 x2, max y1 y2, max z1 z2)"

text \<open>
  \<open>auto_zoom\<close>. \<open>artists\<close> is the value of the property \<open>self.artists\<close>. With no
  artist the method returns \<open>None\<close> at once; otherwise it sets the three
  limits and returns the pair of the corners.
\<close>

definition auto_zoom ::
    "artist list \<Rightarrow> real \<Rightarrow> 'n scene3d \<Rightarrow> 'n scene3d \<times> (vec3 \<times> vec3) option" where
  "auto_zoom artists scale s =
     (case artists of
        [] \<Rightarrow> (s, None)
      | a # as \<Rightarrow>
          (let lo = fold vmin (map artist_min as) (artist_min a);
               hi = fold vmax (map artist_max as) (artist_max a)
           in case (lo, hi) of
                ((lo0, lo1, lo2), (hi0, hi1, hi2)) \<Rightarrow>
                  (let size = scale * max (hi0 - lo0) (max (hi1 - lo1) (hi2 - lo2));
                       extra0 = (size - (hi0 - lo0)) / 2;
                       extra1 = (size - (hi1 - lo1)) / 2;
                       extra2 = (size - (hi2 - lo2)) / 2
                   in (s\<lparr>xlim := (lo0 - extra0, hi0 + extra0),
                          ylim := (lo1 - extra1, hi1 + extra1),
                          zlim := (lo2 - extra2, hi2 + extra2)\<rparr>,
                       Some (lo, hi)))))"

text \<open>A scene after two objects were added to the inertial frame's.\<close>

definition example_frame :: "(string, int) plot_base" where
  "example_frame = PlotBase (new_attrs (Seq [Atom ''N''])) []"

definition example_scene :: "(string, int) plot_base scene3d" where
  "example_scene =
     \<lparr>scene_children = [example_frame, example_point, example_body],
      annot_location_attr = Some (Str ''object''),
      xlim = (0, 1), ylim = (0, 1), zlim = (0, 1)\<rparr>"

section \<open>Circle3D (plot\_artists.py)\<close>

text \<open>
  Arrays of three numbers are triples, 3x3 arrays are triples of rows. Where
  numpy would fill the result with \<open>nan\<close> (a normal of length zero, the square
  root of a negative number) the model returns \<open>None\<close>.
\<close>

type_synonym mat3 = "vec3 \<times> vec3 \<times> vec3"

fun norm3 :: "vec3 \<Rightarrow> real" where
  "norm3 (x, y, z) = sqrt (x * x + y * y + z * z)"

fun cross :: "vec3 \<Rightarrow> vec3 \<Rightarrow> vec3" where
  "cross (a0, a1, a2) (b0, b1, b2) = (a1 * b2 - a2 * b1, a2 * b0 - a0 * b2, a0 * b1 - a1 * b0)"

fun vscale :: "real \<Rightarrow> vec3 \<Rightarrow> vec3" where
  "vscale k (x, y, z) = (k * x, k * y, k * z)"

fun vadd :: "vec3 \<Rightarrow> vec3 \<Rightarrow> vec3" where
  "vadd (x1, y1, z1) (x2, y2, z2) = (x1 + x2, y1 + y2, z1 + z2)"

fun vsub :: "vec3 \<Rightarrow> vec3 \<Rightarrow> vec3" where
  "vsub (x1, y1, z1) (x2, y2, z2) = (x1 - x2, y1 - y2, z1 - z2)"

fun vdiv :: "vec3 \<Rightarrow> real \<Rightarrow> vec3" where
  "vdiv (x, y, z) k = (x / k, y / k, z / k)"

fun inner3 :: "vec3 \<Rightarrow> vec3 \<Rightarrow> real" where
  "inner3 (x1, y1, z1) (x2, y2, z2) = x1 * x2 + y1 * y2 + z1 * z2"

fun dot :: "mat3 \<Rightarrow> vec3 \<Rightarrow> vec3" where
  "dot (r0, r1, r2) v = (inner3 r0 v, inner3 r1 v, inner3 r2 v)"

fun outer :: "vec3 \<Rightarrow> vec3 \<Rightarrow> mat3" where
  "outer (a0, a1, a2) b = (vscale a0 b, vscale a1 b, vscale a2 b)"

fun mscale :: "real \<Rightarrow> mat3 \<Rightarrow> mat3" where
  "mscale k (r0, r1, r2) = (vscale k r0, vscale k r1, vscale k r2)"

fun madd :: "mat3 \<Rightarrow> mat3 \<Rightarrow> mat3" where
  "madd (a0, a1, a2) (b0, b1, b2) = (vadd a0 b0, vadd a1 b1, vadd a2 b2)"

fun msub :: "mat3 \<Rightarrow> mat3 \<Rightarrow> mat3" where
  "msub (a0, a1, a2) (b0, b1, b2) = (vsub a0 b0, vsub a1 b1, vsub a2 b2)"

definition identity3 :: mat3 where
  "identity3 = ((1, 0, 0), (0, 1, 0), (0, 0, 1))"

text \<open>\<open>Circle3D._rotation_matrix\<close>.\<close>

definition rotation_matrix :: "vec3 \<Rightarrow> mat3 option" where
  "rotation_matrix d =
     (let sin_angle = norm3 d in
      if sin_angle = 0 then Some identity3
      else if 1 - sin_angle ^ 2 < 0 then None
      else
        (let d' = vdiv d sin_angle;
             eye = identity3;
             ddt = outer d' d';
             skew = (case d' of (d0, d1, d2) \<Rightarrow> ((0, d2, - d1), (- d2, 0, d0), (d1, - d0, 0)))
         in Some (madd (madd ddt (mscale (sqrt (1 - sin_angle ^ 2)) (msub eye ddt)))
                       (mscale sin_angle skew))))"

text \<open>
  The loop \<open>for i, offset in enumerate(center): segment3d[:, i] += offset\<close>.
  The array has one row of three columns for each vertex: a column beyond the
  third does not exist, and with no vertex at all the array has no second axis
  to index; both raise \<open>IndexError\<close>.
\<close>

fun add_column :: "nat \<Rightarrow> real \<Rightarrow> vec3 \<Rightarrow> vec3" where
  "add_column i offset (x, y, z) =
     (if i = 0 then (x + offset, y, z)
      else if i = 1 then (x, y + offset, z)
      else (x, y, z + offset))"

fun add_offsets :: "nat \<Rightarrow> real list \<Rightarrow> vec3 list \<Rightarrow> py_error + vec3 list" where
  "add_offsets i [] segment3d = Inr segment3d"
| "add_offsets i (offset # rest) segment3d =
     (if segment3d = [] \<or> 3 \<le> i then Inl IndexError
      else add_offsets (Suc i) rest (map (add_column i offset) segment3d))"

text \<open>
  \<open>Circle3D._get_segment3d\<close>, from the vertices of the 2D path, the center and
  the normal. \<open>Inr None\<close> is an array of \<open>nan\<close>; the loop over the center runs
  on it as on any array of its shape.
\<close>

definition get_segment3d ::
    "(real \<times> real) list \<Rightarrow> real list \<Rightarrow> vec3 \<Rightarrow> py_error + vec3 list option" where
  "get_segment3d verts center normal =
     (let len = norm3 normal;
          rotated =
            (if len = 0 then None
             else
               (let normal' = vdiv normal len;
                    d = cross normal' (0, 0, 1)
                in case rotation_matrix d of
                     None \<Rightarrow> None
                   | Some M \<Rightarrow> Some (map (\<lambda>(x, y). dot M (x, y, 0)) verts)))
      in case rotated of
           Some segment3d \<Rightarrow>
             (case add_offsets 0 center segment3d of
                Inl e \<Rightarrow> Inl e
              | Inr translated \<Rightarrow> Inr (Some translated))
         | None \<Rightarrow>
             (case add_offsets 0 center (map (\<lambda>v. (0, 0, 0)) verts) of
                Inl e \<Rightarrow> Inl e
              | Inr translated \<Rightarrow> Inr None))"

text \<open>
  The constructor of \<open>Circle3D\<close>, as far as \<open>_segment3d\<close> goes. \<open>get_2d_path\<close>
  stands for \<open>_get_2d_path\<close>, which asks matplotlib for the vertices of the
  circle of the given radius around the origin.
\<close>

definition Circle3D_init ::
    "(real \<Rightarrow> (real \<times> real) list) \<Rightarrow> real list \<Rightarrow> real \<Rightarrow> vec3 \<Rightarrow> py_error + vec3 list option" where
  "Circle3D_init get_2d_path center radius normal =
     get_segment3d (get_2d_path radius) center normal"

section \<open>The setters of the shared attributes\<close>

text \<open>
  C10. Once \<open>_inertial_frame\<close> exists, every assignment to \<open>inertial_frame\<close>
  raises and leaves the tree as it was: \<open>TypeError\<close> for a value that is not a
  \<open>ReferenceFrame\<close>, \<open>NotImplementedError\<close> for every \<open>ReferenceFrame\<close>, the one
  already stored included. There is no path for an equal value.
\<close>

theorem inertial_frame_set_once:
  "inertial_frame n = Some f \<Longrightarrow>
   inertial_frame_setter n x =
     Raised (if isinstance_ReferenceFrame x then NotImplementedError else TypeError) n"
  by (cases n) (simp add: inertial_frame_def)

theorem inertial_frame_set_once_witness:
  "inertial_frame example_root = Some (ReferenceFrame 0) \<and>
   inertial_frame_setter example_root (ReferenceFrame 0) = Raised NotImplementedError example_root"
proof -
  have h: "inertial_frame example_root = Some (ReferenceFrame 0)"
    by (simp add: inertial_frame_def example_root_def new_attrs_def)
  from inertial_frame_set_once [OF h, of "ReferenceFrame 0"] h show ?thesis by simp
qed




text \<open>
  The condition on the descendants cannot be dropped: below a root that holds
  \<open>Point 0\<close>, a child that holds \<open>Point 1\<close> makes the assignment of \<open>Point 0\<close>
  to the root raise, from the child's own test.
\<close>

lemma zero_point_setter_child_differs:
  "zero_point_setter
     (PlotBase (new_attrs (Seq []))
        [PlotBase ((new_attrs (Seq []))\<lparr>zero_point_attr := Some (Point 1)\<rparr>) []])
     (Point 0) =
   Raised NotImplementedError
     (PlotBase (new_attrs (Seq []))
        [PlotBase ((new_attrs (Seq []))\<lparr>zero_point_attr := Some (Point 1)\<rparr>) []])"
  by (simp add: new_attrs_def)

section \<open>Visibility\<close>

text \<open>
  The \<open>visible\<close> setter never reaches below the children: the lists of
  grandchildren are the same objects in the same state after the call.
\<close>

lemma visible_setter_grandchildren_unchanged:
  "map children (children (visible_setter n b)) = map children (children n)"
  by (cases n) (simp add: comp_def)

text \<open>
  C3. In the tree root, body, point, all visible, \<open>visible = False\<close> on the
  root makes the root and the body invisible, and the point, a grandchild,
  stays visible.
\<close>

theorem visible_setter_skips_grandchild:
  "visible example_root \<and> visible example_body \<and> visible example_point \<and>
   children example_root = [example_body] \<and> children example_body = [example_point] \<and>
   visible_setter example_root False =
     PlotBase ((attrs example_root)\<lparr>visible_attr := False\<rparr>)
       [PlotBase ((attrs example_body)\<lparr>visible_attr := False\<rparr>) [example_point]] \<and>
   visible (hd (children (hd (children (visible_setter example_root False)))))"
  by (simp add: example_root_def example_body_def example_point_def new_attrs_def visible_def)

section \<open>Expressions and values\<close>

text \<open>
  Assigning a values tree of the shape of the expressions returns, and the
  getter then reads the same tree back; the expressions are not touched.
\<close>

lemma values_round_trip_aux:
  fixes n :: "('e, 'v) plot_base" and cs :: "('e, 'v) plot_base list"
  shows "shape v = shape (get_expressions_to_evaluate n) \<Longrightarrow>
      \<exists>n'. values_setter n v = Returned n' \<and> values_getter n' = v \<and>
        get_expressions_to_evaluate n' = get_expressions_to_evaluate n"
    and "map shape vs = map shape (map get_expressions_to_evaluate cs) \<Longrightarrow>
      \<exists>cs'. values_setter_children cs vs = Returned cs' \<and> map values_getter cs' = vs \<and>
        map get_expressions_to_evaluate cs' = map get_expressions_to_evaluate cs"
proof (induction n v and cs vs rule: values_setter_values_setter_children.induct)
  case (1 a cs x)
  then show ?case by (simp add: shape_def)
next
  case (2 a cs)
  then show ?case by (simp add: shape_def)
next
  case (3 a cs v vs)
  from 3 show ?case by (auto simp: shape_def)
next
  case (4 vs)
  then show ?case by simp
next
  case (5 c cs)
  then show ?case by simp
next
  case (6 c cs v vs)
  then show ?case by (auto simp: shape_def)
qed

text \<open>
  C6. The output of \<open>get_expressions_to_evaluate\<close> is the node's own
  expressions followed by one subtree for each child, in the order of the
  children; and after a values tree of exactly that shape is assigned through
  the \<open>values\<close> setter, the \<open>values\<close> property returns that tree, whose shape
  is the shape of the expressions.
\<close>

theorem values_round_trip:
  "get_expressions_to_evaluate (PlotBase a cs) =
     Seq (expressions_self a # map get_expressions_to_evaluate cs) \<and>
   (shape v = shape (get_expressions_to_evaluate n) \<longrightarrow>
      (\<exists>n'. values_setter n v = Returned n' \<and> values_getter n' = v \<and>
         shape (values_getter n') = shape (get_expressions_to_evaluate n')))"
proof -
  have "\<exists>n'. values_setter n v = Returned n' \<and> values_getter n' = v \<and>
         shape (values_getter n') = shape (get_expressions_to_evaluate n')"
    if "shape v = shape (get_expressions_to_evaluate n)"
    using values_round_trip_aux(1) [OF that] that by auto
  then show ?thesis by simp
qed

lemma example_values_shape:
  "shape example_values = shape (get_expressions_to_evaluate example_root)"
  by (simp add: shape_def example_values_def example_root_def example_body_def
      example_point_def new_attrs_def)

theorem values_round_trip_witness:
  "shape example_values = shape (get_expressions_to_evaluate example_root) \<and>
   (\<exists>n'. values_setter example_root example_values = Returned n' \<and>
      values_getter n' = example_values \<and>
      shape (values_getter n') = shape (get_expressions_to_evaluate n'))"
  using values_round_trip [of _ _ example_values example_root] example_values_shape by simp

text \<open>
  The loop over \<open>zip(self._children, values[1:])\<close>: when the assignments
  it makes return, it returns, whatever the two lengths are.
\<close>

lemma values_setter_children_truncates:
  "\<forall>(c, w) \<in> set (zip cs vs). \<exists>c'. values_setter c w = Returned c' \<Longrightarrow>
   \<exists>cs'. values_setter_children cs vs = Returned cs' \<and> length cs' = length cs \<and>
     drop (length vs) cs' = drop (length vs) cs \<and>
     (\<forall>i < min (length cs) (length vs). values_setter (cs ! i) (vs ! i) = Returned (cs' ! i))"
proof (induction cs arbitrary: vs)
  case Nil
  then show ?case by simp
next
  case (Cons c cs)
  show ?case
  proof (cases vs)
    case Nil
    then show ?thesis by simp
  next
    case (Cons w ws)
    from Cons.prems Cons obtain c' where c': "values_setter c w = Returned c'"
      by auto
    from Cons.prems Cons have "\<forall>(c, w) \<in> set (zip cs ws). \<exists>c'. values_setter c w = Returned c'"
      by auto
    from Cons.IH [OF this] obtain cs' where cs':
      "values_setter_children cs ws = Returned cs'" "length cs' = length cs"
      "drop (length ws) cs' = drop (length ws) cs"
      "\<forall>i < min (length cs) (length ws). values_setter (cs ! i) (ws ! i) = Returned (cs' ! i)"
      by blast
    have "\<forall>i < min (length (c # cs)) (length (w # ws)).
        values_setter ((c # cs) ! i) ((w # ws) ! i) = Returned ((c' # cs') ! i)"
    proof (intro allI impI)
      fix i assume "i < min (length (c # cs)) (length (w # ws))"
      then show "values_setter ((c # cs) ! i) ((w # ws) ! i) = Returned ((c' # cs') ! i)"
        using c' cs'(4) by (cases i) auto
    qed
    with c' cs' Cons show ?thesis by simp
  qed
qed

text \<open>
  C1, as the code has it. Given a list \<open>[v, s1, ..., sk]\<close>, the \<open>values\<close>
  setter raises nothing for a number \<open>k\<close> of subtrees that differs from the
  number of children: it stores \<open>v\<close>, assigns \<open>si\<close> to the i-th child for each
  position both lists have (as long as these assignments return), leaves the
  children beyond the subtrees as they were, and ignores the subtrees beyond
  the children.
\<close>

theorem values_setter_truncates:
  "\<forall>(c, w) \<in> set (zip cs vs). \<exists>c'. values_setter c w = Returned c' \<Longrightarrow>
   \<exists>cs'. values_setter (PlotBase a cs) (Seq (v # vs)) =
       Returned (PlotBase (a\<lparr>values_attr := v\<rparr>) cs') \<and>
     length cs' = length cs \<and>
     drop (length vs) cs' = drop (length vs) cs \<and>
     (\<forall>i < min (length cs) (length vs). values_setter (cs ! i) (vs ! i) = Returned (cs' ! i))"
proof -
  assume "\<forall>(c, w) \<in> set (zip cs vs). \<exists>c'. values_setter c w = Returned c'"
  from values_setter_children_truncates [OF this] obtain cs' where
    "values_setter_children cs vs = Returned cs'" "length cs' = length cs"
    "drop (length vs) cs' = drop (length vs) cs"
    "\<forall>i < min (length cs) (length vs). values_setter (cs ! i) (vs ! i) = Returned (cs' ! i)"
    by blast
  then show ?thesis by simp
qed

theorem values_setter_truncates_witness:
  "(\<exists>c'. values_setter example_body (Seq [Seq []]) = Returned c') \<and>
   (\<exists>cs'. values_setter (PlotBase (new_attrs (Seq [Atom ''r''])) [example_body, example_point])
        (Seq [Seq [Atom 7], Seq [Seq []]]) =
       Returned (PlotBase ((new_attrs (Seq [Atom ''r'']))\<lparr>values_attr := Seq [Atom 7]\<rparr>) cs') \<and>
     length cs' = 2 \<and> drop 1 cs' = [example_point])"
proof -
  have h: "\<forall>(c, w) \<in> set (zip [example_body, example_point] [Seq [Seq []]]).
      \<exists>c'. values_setter c w = Returned c'"
    by (simp add: example_body_def)
  have "\<exists>c'. values_setter example_body (Seq [Seq []]) = Returned c'"
    by (simp add: example_body_def)
  with values_setter_truncates [OF h, of "new_attrs (Seq [Atom ''r''])" "Seq [Atom 7]"]
  show ?thesis by auto
qed

text \<open>
  C1 as stated fails: two values trees whose shape is not the shape of the
  expressions of \<open>example_root\<close>, one with no subtree for its child and one with
  a subtree too many, are both assigned without an error, and the child keeps
  its old values in the first case.
\<close>

theorem values_setter_shape_mismatch_counterexample:
  "shape (Seq [Seq [Atom 7]]) \<noteq> shape (get_expressions_to_evaluate example_root) \<and>
   values_setter example_root (Seq [Seq [Atom 7]]) =
     Returned (PlotBase ((attrs example_root)\<lparr>values_attr := Seq [Atom 7]\<rparr>) [example_body]) \<and>
   shape (Seq [Seq [Atom 7], Seq [Seq []], Seq [Seq []]]) \<noteq>
     shape (get_expressions_to_evaluate example_root) \<and>
   values_setter example_root (Seq [Seq [Atom 7], Seq [Seq []], Seq [Seq []]]) =
     Returned (PlotBase ((attrs example_root)\<lparr>values_attr := Seq [Atom 7]\<rparr>) [example_body])"
  by (simp add: shape_def example_root_def example_body_def example_point_def new_attrs_def)

section \<open>The scene\<close>

text \<open>
  C2, as the code has it. Assigning \<open>"object"\<close> to \<open>annot_location\<close> succeeds;
  every other value raises \<open>NotImplementedError\<close> at the assignment and leaves
  the scene unchanged.
\<close>

theorem annot_location_only_object:
  "annot_location_setter s (Str ''object'') =
     Returned (s\<lparr>annot_location_attr := Some (Str ''object'')\<rparr>) \<and>
   (v \<noteq> Str ''object'' \<longrightarrow> annot_location_setter s v = Raised NotImplementedError s)"
  by (simp add: annot_location_setter_def)

theorem annot_location_only_object_witness:
  "Str ''mouse'' \<noteq> Str ''object'' \<and>
   annot_location_setter example_scene (Str ''object'') = Returned example_scene \<and>
   annot_location_setter example_scene (Str ''mouse'') = Raised NotImplementedError example_scene"
  using annot_location_only_object [of example_scene "Str ''mouse''"]
  by (simp add: example_scene_def)

text \<open>
  C2 as stated fails: assigning \<open>"mouse"\<close> raises.
\<close>

theorem annot_location_mouse_counterexample:
  "annot_location_setter example_scene (Str ''mouse'') = Raised NotImplementedError example_scene"
  by (simp add: annot_location_setter_def)




text \<open>
  C9. With no artist, \<open>auto_zoom\<close> returns \<open>None\<close> without raising and the
  scene, the limits of the x, y and z axes in particular, is as before.
\<close>

theorem auto_zoom_no_artists:
  "auto_zoom [] scale s = (s, None) \<and>
   xlim (fst (auto_zoom [] scale s)) = xlim s \<and>
   ylim (fst (auto_zoom [] scale s)) = ylim s \<and>
   zlim (fst (auto_zoom [] scale s)) = zlim s"
  by (simp add: auto_zoom_def)

theorem auto_zoom_no_artists_witness:
  "auto_zoom [] 1.1 example_scene = (example_scene, None) \<and>
   xlim (fst (auto_zoom [] 1.1 example_scene)) = (0, 1)"
  using auto_zoom_no_artists [of "1.1" example_scene] by (simp add: example_scene_def)

section \<open>The circle\<close>

lemma add_offsets_three:
  "segment3d \<noteq> [] \<Longrightarrow>
   add_offsets 0 [cx, cy, cz] segment3d =
     Inr (map (\<lambda>(x, y, z). (x + cx, y + cy, z + cz)) segment3d)"
  by (auto simp: numeral_eq_Suc)

lemma rotation_matrix_zero: "rotation_matrix (0, 0, 0) = Some identity3"
  by (simp add: rotation_matrix_def)

lemma dot_identity3: "dot identity3 v = v"
  by (cases v) (simp add: identity3_def)

text \<open>
  C8. For the normal \<open>(0, 0, 1)\<close> the rotation vector, the cross product of
  the normalised normal and \<open>(0, 0, 1)\<close>, is zero, the rotation matrix is the
  identity, and the 3D path of a circle is its 2D path, with \<open>z = 0\<close>, moved
  by the center in each coordinate.
\<close>

theorem circle3d_canonical_normal:
  "cross (vdiv (0, 0, 1) (norm3 (0, 0, 1))) (0, 0, 1) = (0, 0, 0) \<and>
   rotation_matrix (cross (vdiv (0, 0, 1) (norm3 (0, 0, 1))) (0, 0, 1)) = Some identity3 \<and>
   (get_2d_path radius \<noteq> [] \<longrightarrow>
      Circle3D_init get_2d_path [cx, cy, cz] radius (0, 0, 1) =
        Inr (Some (map (\<lambda>(x, y). (x + cx, y + cy, 0 + cz)) (get_2d_path radius))))"
proof -
  have d: "cross (vdiv (0, 0, 1) (norm3 (0, 0, 1))) (0, 0, 1) = (0, 0, 0)"
    by simp
  have path: "Circle3D_init get_2d_path [cx, cy, cz] radius (0, 0, 1) =
      Inr (Some (map (\<lambda>(x, y). (x + cx, y + cy, 0 + cz)) (get_2d_path radius)))"
    if "get_2d_path radius \<noteq> []"
  proof -
    have "map (\<lambda>(x, y). dot identity3 (x, y, 0)) (get_2d_path radius) \<noteq> []"
      using that by simp
    from add_offsets_three [OF this, of cx cy cz] show ?thesis
      by (simp add: Circle3D_init_def get_segment3d_def rotation_matrix_zero dot_identity3
          comp_def split_def)
  qed
  from d path show ?thesis by (simp add: rotation_matrix_zero)
qed

theorem circle3d_canonical_normal_witness:
  "(\<lambda>r. [(r, 0), (0, r), (- r, 0), (0, - r)]) (2::real) \<noteq> [] \<and>
   Circle3D_init (\<lambda>r. [(r, 0), (0, r), (- r, 0), (0, - r)]) [1, 2, 3] 2 (0, 0, 1) =
     Inr (Some [(3, 2, 3), (1, 4, 3), (- 1, 2, 3), (1, 0, 3)])"
  using circle3d_canonical_normal [of "\<lambda>r. [(r, 0), (0, r), (- r, 0), (0, - r)]" 2 1 2 3]
  by simp

end
